theory Spec2Isabelle
  imports Complex_Main
begin

section \<open>Data model of the supervision core\<close>

text \<open>
  The supervision core of the repository is given by the HealdecEngine and WorkerManager
  classes: the methods shown in docs/HEALDEC.md, in the features document and the
  worker document, and the two classes declared in the orchestrator test file.
  JavaScript objects become records, \<open>Map\<close>s become partial functions, a call that
  may throw returns an \<open>outcome\<close> together with the state it leaves behind.
\<close>

type_synonym name = string

datatype 'a outcome = Returned 'a | Threw

text \<open>An entry of \<open>CONFIG.workers\<close>; the sources read \<open>enabled\<close>, \<open>path\<close> and \<open>interval\<close>.\<close>

record worker_config =
  enabled :: bool
  path :: string
  interval :: nat

text \<open>\<open>CONFIG.healdec\<close>: \<open>{ healthCheckInterval: 30000, restartDelay: 5000, maxRestarts: 3 }\<close>.\<close>

record healdec_config =
  healthCheckInterval :: nat
  restartDelay :: nat
  maxRestarts :: nat

definition default_healdec :: healdec_config where
  "default_healdec = \<lparr>healthCheckInterval = 30000, restartDelay = 5000, maxRestarts = 3\<rparr>"

text \<open>The object built by \<open>alertAdmin\<close>.\<close>

record alert =
  level :: string
  component :: name
  message :: string
  timestamp :: int
  actions :: "string list"

text \<open>
  The closure handed to \<open>setTimeout\<close> by \<open>handleWorkerFailure\<close> and \<open>restartWorker\<close>
  captures the worker's name, its configuration and the restart count read when the
  timer was created; \<open>t_delay\<close> is the delay in milliseconds.
\<close>

record timer =
  t_name :: name
  t_config :: "worker_config option"
  t_count :: nat
  t_delay :: nat

text \<open>
  \<open>CONFIG.workers\<close> and the test file's \<open>mockWorkers\<close> are plain objects, read with
  \<open>obj[key]\<close>: the read finds the object's own entries and, for the property names of
  \<open>Object.prototype\<close>, an inherited member, which is neither \<open>undefined\<close> nor falsy and
  has no \<open>path\<close>.
\<close>

definition prototype_keys :: "string list" where
  "prototype_keys =
     [''constructor'', ''__defineGetter__'', ''__defineSetter__'', ''hasOwnProperty'',
      ''__lookupGetter__'', ''__lookupSetter__'', ''isPrototypeOf'', ''propertyIsEnumerable'',
      ''toString'', ''valueOf'', ''__proto__'', ''toLocaleString'']"

datatype 'a js_prop = Undefined | Inherited | Own 'a

definition get_prop :: "(name \<rightharpoonup> 'a) \<Rightarrow> name \<Rightarrow> 'a js_prop" where
  "get_prop obj k =
     (case obj k of
        Some v \<Rightarrow> Own v
      | None \<Rightarrow> if k \<in> set prototype_keys then Inherited else Undefined)"

text \<open>Calls that act on processes are kept in a trace.\<close>

datatype event =
    StopComponent name
  | StartComponent name
  | Spawn name string
  | Kill name nat

record sys =
  CONFIG_workers :: "name \<rightharpoonup> worker_config"
  healthChecks :: "name \<rightharpoonup> bool"
  restartCounts :: "name \<rightharpoonup> nat"
  workers :: "name \<rightharpoonup> nat"
  next_pid :: nat
  timers :: "timer list"
  alerts :: "alert list"
  events :: "event list"
  now :: int

text \<open>The constructors of both classes start from empty maps.\<close>

definition init_sys :: "(name \<rightharpoonup> worker_config) \<Rightarrow> sys" where
  "init_sys cfg = \<lparr>CONFIG_workers = cfg, healthChecks = Map.empty, restartCounts = Map.empty,
     workers = Map.empty, next_pid = 0, timers = [], alerts = [], events = [], now = 0\<rparr>"

section \<open>Health registry (orchestrator test file)\<close>

text \<open>\<open>checkWorkerHealth(workerName) { return this.healthChecks.get(workerName) || false; }\<close>\<close>

definition checkWorkerHealth :: "name \<Rightarrow> sys \<Rightarrow> bool" where
  "checkWorkerHealth workerName s =
     (case healthChecks s workerName of None \<Rightarrow> False | Some healthy \<Rightarrow> healthy)"

text \<open>\<open>setWorkerHealth(workerName, healthy) { this.healthChecks.set(workerName, healthy); }\<close>\<close>

definition setWorkerHealth :: "name \<Rightarrow> bool \<Rightarrow> sys \<Rightarrow> sys" where
  "setWorkerHealth workerName healthy s =
     s\<lparr>healthChecks := (healthChecks s)(workerName \<mapsto> healthy)\<rparr>"

text \<open>A sequence of \<open>setWorkerHealth\<close> calls, in order.\<close>

fun record_all :: "(name \<times> bool) list \<Rightarrow> sys \<Rightarrow> sys" where
  "record_all [] s = s"
| "record_all ((n, h) # calls) s = record_all calls (setWorkerHealth n h s)"

section \<open>Healdec engine (docs/HEALDEC.md, features document)\<close>

text \<open>
  The engine's methods call helpers whose bodies the repository does not show
  (\<open>fs.existsSync\<close>, \<open>checkDependencies\<close>, \<open>checkDatabase\<close>, \<open>healthCheck\<close>, \<open>stopComponent\<close>,
  \<open>startComponent\<close>, the database and notification calls of \<open>alertAdmin\<close>,
  \<open>getLastSuccessfulRun\<close>, \<open>getErrorRate\<close>). They are parameters: a record of functions
  that answer each call from the state reached so far. \<open>fs.existsSync\<close> answers with a
  boolean. The awaited checks of \<open>validate\<close>, the health check and the helpers that drive
  processes may complete or throw; they leave \<open>CONFIG.workers\<close> alone, and the calls that stop or
  start a component are written to the trace. Console output is not part of the state.
\<close>

record env =
  existsSync :: "string \<Rightarrow> bool"
  checkDependencies :: "name \<Rightarrow> sys \<Rightarrow> bool outcome"
  checkDatabase :: "sys \<Rightarrow> bool outcome"
  healthCheck :: "name \<Rightarrow> sys \<Rightarrow> bool outcome"
  stopComponent_ok :: "name \<Rightarrow> sys \<Rightarrow> bool"
  startComponent_ok :: "name \<Rightarrow> sys \<Rightarrow> bool"
  alert_delivered :: "sys \<Rightarrow> bool"
  getLastSuccessfulRun :: "name \<Rightarrow> sys \<Rightarrow> int"
  getErrorRate :: "name \<Rightarrow> sys \<Rightarrow> rat"

definition stopComponent :: "env \<Rightarrow> name \<Rightarrow> sys \<Rightarrow> unit outcome \<times> sys" where
  "stopComponent e target s =
     (if stopComponent_ok e target s then Returned () else Threw,
      s\<lparr>events := events s @ [StopComponent target]\<rparr>)"

definition startComponent :: "env \<Rightarrow> name \<Rightarrow> sys \<Rightarrow> unit outcome \<times> sys" where
  "startComponent e target s =
     (if startComponent_ok e target s then Returned () else Threw,
      s\<lparr>events := events s @ [StartComponent target]\<rparr>)"

text \<open>
  \<open>alertAdmin(target, message)\<close> builds the alert with \<open>level: 'critical'\<close> and
  \<open>actions: ['manual_intervention_required']\<close>, inserts it into the alerts table, notifies
  the admin console and sends the email. \<open>alerts\<close> holds every alert built; the call
  throws when storing or sending fails.
\<close>

definition alertAdmin :: "env \<Rightarrow> name \<Rightarrow> string \<Rightarrow> sys \<Rightarrow> unit outcome \<times> sys" where
  "alertAdmin e target msg s =
     (let a = \<lparr>level = ''critical'', component = target, message = msg,
                timestamp = now s, actions = [''manual_intervention_required'']\<rparr>
      in (if alert_delivered e s then Returned () else Threw, s\<lparr>alerts := alerts s @ [a]\<rparr>))"

text \<open>
  Modelled from the spec: \<open>backupConfig\<close> is called by \<open>safeUpdate\<close> and its body is missing;
  the spec has it never fail and take an immutable copy of the target's current
  configuration, which is \<open>undefined\<close> (here \<open>None\<close>) for a target that has no entry of
  its own. \<open>safeUpdate\<close> uses the copy only after \<open>validate\<close> has returned \<open>true\<close>, when
  the target has one.
\<close>

definition backupConfig :: "name \<Rightarrow> sys \<Rightarrow> worker_config option" where
  "backupConfig target s = CONFIG_workers s target"

text \<open>
  \<open>validate(target)\<close>: \<open>return false\<close> when \<open>CONFIG.workers[target]\<close> is falsy; then
  \<open>join(__dirname, CONFIG.workers[target].path)\<close>, a TypeError when the entry has no path,
  as every inherited member; \<open>return false\<close> when the file does not exist, when the
  awaited \<open>checkDependencies\<close> is not satisfied, when the awaited \<open>checkDatabase\<close> is not
  healthy; else \<open>return true\<close>. An awaited check that rejects ends \<open>validate\<close> with its
  exception.
\<close>

definition validate :: "env \<Rightarrow> name \<Rightarrow> sys \<Rightarrow> bool outcome" where
  "validate e target s =
     (case get_prop (CONFIG_workers s) target of
        Undefined \<Rightarrow> Returned False
      | Inherited \<Rightarrow> Threw
      | Own c \<Rightarrow>
          if \<not> existsSync e (path c) then Returned False
          else
            (case checkDependencies e target s of
               Threw \<Rightarrow> Threw
             | Returned satisfied \<Rightarrow>
                 if \<not> satisfied then Returned False
                 else
                   (case checkDatabase e s of
                      Threw \<Rightarrow> Threw
                    | Returned dbHealthy \<Rightarrow>
                        if \<not> dbHealthy then Returned False else Returned True)))"

text \<open>
  \<open>rollback(target, backup)\<close>: inside one \<open>try\<close>, stop the component, assign
  \<open>CONFIG.workers[target] = backup\<close>, start the component, run the health check and call
  \<open>alertAdmin(target, 'Rollback failed')\<close> when it is not healthy; the \<open>catch\<close> returns
  \<open>false\<close>.
\<close>

definition rollback :: "env \<Rightarrow> name \<Rightarrow> worker_config option \<Rightarrow> sys \<Rightarrow> bool outcome \<times> sys" where
  "rollback e target backup s =
     (case stopComponent e target s of
        (Threw, s1) \<Rightarrow> (Returned False, s1)
      | (Returned _, s1) \<Rightarrow>
          (let s2 = s1\<lparr>CONFIG_workers := (CONFIG_workers s1)(target := backup)\<rparr> in
           case startComponent e target s2 of
             (Threw, s3) \<Rightarrow> (Returned False, s3)
           | (Returned _, s3) \<Rightarrow>
               (case healthCheck e target s3 of
                  Threw \<Rightarrow> (Returned False, s3)
                | Returned healthy \<Rightarrow>
                    if healthy then (Returned healthy, s3)
                    else (case alertAdmin e target ''Rollback failed'' s3 of
                            (Threw, s4) \<Rightarrow> (Returned False, s4)
                          | (Returned _, s4) \<Rightarrow> (Returned healthy, s4)))))"

text \<open>
  \<open>safeUpdate(target, updateFn)\<close>: backup and validate, both awaited before the \<open>try\<close>, so
  that an exception of \<open>validate\<close> ends \<open>safeUpdate\<close>; \<open>return false\<close> when not valid; then
  inside \<open>try\<close> the update and the health check, which throws when not healthy;
  \<open>return true\<close>; the \<open>catch\<close> awaits \<open>rollback(target, backup)\<close> and returns \<open>false\<close>.
  An exception of \<open>rollback\<close> would leave the \<open>catch\<close> block uncaught.
\<close>

definition safeUpdate_catch ::
    "env \<Rightarrow> name \<Rightarrow> worker_config option \<Rightarrow> sys \<Rightarrow> bool outcome \<times> sys" where
  "safeUpdate_catch e target backup s =
     (case rollback e target backup s of
        (Threw, s') \<Rightarrow> (Threw, s')
      | (Returned _, s') \<Rightarrow> (Returned False, s'))"

definition safeUpdate ::
    "env \<Rightarrow> name \<Rightarrow> (sys \<Rightarrow> unit outcome \<times> sys) \<Rightarrow> sys \<Rightarrow> bool outcome \<times> sys" where
  "safeUpdate e target updateFn s =
     (let backup = backupConfig target s in
      case validate e target s of
        Threw \<Rightarrow> (Threw, s)
      | Returned validated \<Rightarrow>
          if \<not> validated then (Returned False, s)
          else
            (case updateFn s of
               (Threw, s1) \<Rightarrow> safeUpdate_catch e target backup s1
             | (Returned _, s1) \<Rightarrow>
                 (case healthCheck e target s1 of
                    Threw \<Rightarrow> safeUpdate_catch e target backup s1
                  | Returned healthy \<Rightarrow>
                      if \<not> healthy then safeUpdate_catch e target backup s1
                      else (Returned True, s1))))"

subsection \<open>The engine declared in the orchestrator test file\<close>

text \<open>
  There \<open>validate\<close> returns \<open>mockWorkers[target] !== undefined\<close> for a plain object of
  three workers (each \<open>{ enabled: true }\<close>, kept here as the flag), which holds for the
  inherited members too; \<open>rollback\<close> returns \<open>true\<close>, and \<open>safeUpdate\<close> has no backup and
  no health check.
\<close>

definition mockWorkers :: "name \<rightharpoonup> bool" where
  "mockWorkers = [''farcaster'' \<mapsto> True, ''ethereum'' \<mapsto> True, ''solana'' \<mapsto> True]"

definition validate_test :: "name \<Rightarrow> bool" where
  "validate_test target = (get_prop mockWorkers target \<noteq> Undefined)"

definition rollback_test :: "name \<Rightarrow> sys \<Rightarrow> bool outcome \<times> sys" where
  "rollback_test target s = (Returned True, s)"

definition safeUpdate_test ::
    "name \<Rightarrow> (sys \<Rightarrow> unit outcome \<times> sys) \<Rightarrow> sys \<Rightarrow> bool outcome \<times> sys" where
  "safeUpdate_test target updateFn s =
     (if \<not> validate_test target then (Returned False, s)
      else
        (case updateFn s of
           (Returned _, s1) \<Rightarrow> (Returned True, s1)
         | (Threw, s1) \<Rightarrow>
             (case rollback_test target s1 of
                (Threw, s2) \<Rightarrow> (Threw, s2)
              | (Returned _, s2) \<Rightarrow> (Returned False, s2))))"

subsection \<open>The worker probe\<close>

text \<open>
  \<open>checkWorkerHealth(workerName)\<close> of docs/HEALDEC.md returns
  \<open>{ name, healthy, checks: { processRunning, recentActivity, lowErrorRate } }\<close>, with
  \<open>healthy = Object.values(health.checks).every(c => c === true)\<close>. The error rate is
  a rational here: a double is below the double \<open>0.05\<close> exactly when it is below 5/100.
\<close>

record checks =
  processRunning :: bool
  recentActivity :: bool
  lowErrorRate :: bool

record health =
  h_name :: name
  healthy :: bool
  h_checks :: checks


text \<open>
  The verdict in the words of the specification, for comparison: liveness, then the
  freshness window (else Unhealthy, "stale"), then the error ratio (else Degraded); the
  reason is empty where the specification names none.
\<close>

datatype status = Healthy | Degraded | Unhealthy | Unknown


section \<open>Worker manager (worker document, features document)\<close>

text \<open>\<open>this.restartCounts.get(name) || 0\<close>\<close>

definition restartCount_of :: "name \<Rightarrow> sys \<Rightarrow> nat" where
  "restartCount_of name s = (case restartCounts s name of None \<Rightarrow> 0 | Some c \<Rightarrow> c)"

text \<open>
  \<open>startWorker(name, config)\<close> passes \<open>config.path\<close> to \<open>join\<close> (a TypeError when
  \<open>config\<close> is \<open>undefined\<close> or an inherited member, both \<open>None\<close> here), spawns the
  process, stores it under the name and records the worker as healthy.
\<close>

definition startWorker :: "name \<Rightarrow> worker_config option \<Rightarrow> sys \<Rightarrow> unit outcome \<times> sys" where
  "startWorker name config s =
     (case config of
        None \<Rightarrow> (Threw, s)
      | Some c \<Rightarrow>
          (Returned (),
           setWorkerHealth name True
             (s\<lparr>workers := (workers s)(name \<mapsto> next_pid s),
                next_pid := Suc (next_pid s),
                events := events s @ [Spawn name (path c)]\<rparr>)))"

text \<open>
  \<open>handleWorkerFailure(name, config)\<close> of the features document: at the maximum it calls
  \<open>alertAdmin(name, 'Max restart limit reached')\<close>, which is not awaited, and returns;
  below it the delay is \<open>restartDelay * Math.pow(2, restartCount)\<close>.
\<close>

definition handleWorkerFailure ::
    "healdec_config \<Rightarrow> env \<Rightarrow> name \<Rightarrow> worker_config \<Rightarrow> sys \<Rightarrow> sys" where
  "handleWorkerFailure hc e name config s =
     (let restartCount = restartCount_of name s in
      if restartCount \<ge> maxRestarts hc
      then snd (alertAdmin e name ''Max restart limit reached'' s)
      else
        (let delay = restartDelay hc * 2 ^ restartCount in
         s\<lparr>timers := timers s @
              [\<lparr>t_name = name, t_config = Some config, t_count = restartCount,
                t_delay = delay\<rparr>]\<rparr>))"

text \<open>
  \<open>restartWorker(name)\<close> of the worker document: at the maximum it logs and returns;
  below it the running worker is killed and removed, and the timer is created with
  \<open>CONFIG.healdec.restartDelay\<close>. The configuration captured by the timer is the
  worker's own entry of \<open>CONFIG.workers\<close>; without one, \<open>startWorker\<close> throws when the
  timer fires.
\<close>

definition restartWorker :: "healdec_config \<Rightarrow> name \<Rightarrow> sys \<Rightarrow> sys" where
  "restartWorker hc name s =
     (let config = CONFIG_workers s name;
          restartCount = restartCount_of name s in
      if restartCount \<ge> maxRestarts hc then s
      else
        (let s1 = (case workers s name of
                     None \<Rightarrow> s
                   | Some pid \<Rightarrow> s\<lparr>workers := (workers s)(name := None),
                                   events := events s @ [Kill name pid]\<rparr>)
         in s1\<lparr>timers := timers s1 @
               [\<lparr>t_name = name, t_config = config, t_count = restartCount,
                 t_delay = restartDelay hc\<rparr>]\<rparr>))"

text \<open>
  The body of both timers: \<open>this.startWorker(name, config);
  this.restartCounts.set(name, restartCount + 1);\<close>
\<close>

definition timer_body :: "timer \<Rightarrow> sys \<Rightarrow> unit outcome \<times> sys" where
  "timer_body t s =
     (case startWorker (t_name t) (t_config t) s of
        (Threw, s1) \<Rightarrow> (Threw, s1)
      | (Returned _, s1) \<Rightarrow>
          (Returned (), s1\<lparr>restartCounts := (restartCounts s1)(t_name t \<mapsto> t_count t + 1)\<rparr>))"

text \<open>The \<open>i\<close>-th pending timer fires and is gone; an exception of its body is lost.\<close>

definition fire :: "nat \<Rightarrow> sys \<Rightarrow> sys" where
  "fire i s =
     (if i < length (timers s)
      then snd (timer_body (timers s ! i) (s\<lparr>timers := take i (timers s) @ drop (Suc i) (timers s)\<rparr>))
      else s)"

text \<open>
  The exit handler installed by \<open>startWorker\<close>:
  \<open>healdec.setWorkerHealth(name, false); if (code !== 0) this.handleWorkerFailure(name, config);\<close>
  The exit code is \<open>null\<close> (here \<open>None\<close>) for a process ended by a signal.
\<close>

definition on_exit ::
    "healdec_config \<Rightarrow> env \<Rightarrow> name \<Rightarrow> worker_config \<Rightarrow> int option \<Rightarrow> sys \<Rightarrow> sys" where
  "on_exit hc e name config code s =
     (let s1 = setWorkerHealth name False s in
      if code \<noteq> Some 0 then handleWorkerFailure hc e name config s1 else s1)"

text \<open>What can happen to the manager, one step at a time.\<close>

datatype step =
    Start name worker_config
  | Exit name worker_config "int option"
  | Failure name worker_config
  | Restart name
  | Fire nat
  | Elapse nat

fun do_step :: "healdec_config \<Rightarrow> env \<Rightarrow> step \<Rightarrow> sys \<Rightarrow> sys" where
  "do_step hc e (Start name config) s = snd (startWorker name (Some config) s)"
| "do_step hc e (Exit name config code) s = on_exit hc e name config code s"
| "do_step hc e (Failure name config) s = handleWorkerFailure hc e name config s"
| "do_step hc e (Restart name) s = restartWorker hc name s"
| "do_step hc e (Fire i) s = fire i s"
| "do_step hc e (Elapse ms) s = s\<lparr>now := now s + int ms\<rparr>"

fun run :: "healdec_config \<Rightarrow> env \<Rightarrow> step list \<Rightarrow> sys \<Rightarrow> sys" where
  "run hc e [] s = s"
| "run hc e (st # sts) s = run hc e sts (do_step hc e st s)"

text \<open>The pending timers of one worker.\<close>

definition pending :: "name \<Rightarrow> sys \<Rightarrow> timer list" where
  "pending name s = filter (\<lambda>t. t_name t = name) (timers s)"

text \<open>
  The restart budget as a property of a state: every stored count is at most the
  maximum, and every pending timer was created below the maximum.
\<close>

definition within_budget :: "healdec_config \<Rightarrow> sys \<Rightarrow> bool" where
  "within_budget hc s =
     ((\<forall>n c. restartCounts s n = Some c \<longrightarrow> c \<le> maxRestarts hc)
      \<and> (\<forall>t \<in> set (timers s). t_count t < maxRestarts hc))"

section \<open>Example inputs\<close>

text \<open>
  A configuration with the three workers of the repository, helpers that always complete,
  a health check that accepts a worker whose interval is at least one second, and the
  update of the usage example in docs/HEALDEC.md:
  \<open>CONFIG.workers.farcaster.interval = 30000; await workerManager.restartWorker('farcaster');\<close>
\<close>

definition example_workers :: "name \<rightharpoonup> worker_config" where
  "example_workers =
     [''farcaster'' \<mapsto> \<lparr>enabled = True, path = ''../workers/farcaster.worker.js'', interval = 60000\<rparr>,
      ''ethereum'' \<mapsto> \<lparr>enabled = True, path = ''../workers/ethereum.worker.js'', interval = 60000\<rparr>,
      ''solana'' \<mapsto> \<lparr>enabled = True, path = ''../workers/solana.worker.js'', interval = 60000\<rparr>]"

definition example_env :: env where
  "example_env =
     \<lparr>existsSync = (\<lambda>p. True),
      checkDependencies = (\<lambda>n s. Returned True),
      checkDatabase = (\<lambda>s. Returned True),
      healthCheck = (\<lambda>n s. case CONFIG_workers s n of
                               None \<Rightarrow> Threw
                             | Some c \<Rightarrow> Returned (1000 \<le> interval c)),
      stopComponent_ok = (\<lambda>n s. True),
      startComponent_ok = (\<lambda>n s. True),
      alert_delivered = (\<lambda>s. True),
      getLastSuccessfulRun = (\<lambda>n s. if n = ''ethereum'' then now s - 400000 else now s),
      getErrorRate = (\<lambda>n s. if n = ''solana'' then 1 / 10 else 1 / 100)\<rparr>"

definition change_interval :: "healdec_config \<Rightarrow> nat \<Rightarrow> sys \<Rightarrow> unit outcome \<times> sys" where
  "change_interval hc v s =
     (case CONFIG_workers s ''farcaster'' of
        None \<Rightarrow> (Threw, s)
      | Some c \<Rightarrow>
          (Returned (),
           restartWorker hc ''farcaster''
             (s\<lparr>CONFIG_workers := (CONFIG_workers s)(''farcaster'' \<mapsto> c\<lparr>interval := v\<rparr>)\<rparr>)))"

text \<open>The same helpers with a database check that rejects, and with a stop that fails.\<close>

definition database_down_env :: env where
  "database_down_env = example_env\<lparr>checkDatabase := (\<lambda>s. Threw)\<rparr>"

definition stop_fails_env :: env where
  "stop_fails_env = example_env\<lparr>stopComponent_ok := (\<lambda>n s. False)\<rparr>"

text \<open>An update that fails: \<open>() => Promise.reject(new Error('Update failed'))\<close>.\<close>

definition failing_update :: "sys \<Rightarrow> unit outcome \<times> sys" where
  "failing_update s = (Threw, s)"

text \<open>An update that completes and leaves the target without an entry.\<close>

definition remove_entry :: "name \<Rightarrow> sys \<Rightarrow> unit outcome \<times> sys" where
  "remove_entry n s = (Returned (), s\<lparr>CONFIG_workers := (CONFIG_workers s)(n := None)\<rparr>)"

text \<open>\<open>startWorkers\<close> on the three workers, and the state it leaves.\<close>

definition farcaster_config :: worker_config where
  "farcaster_config =
     \<lparr>enabled = True, path = ''../workers/farcaster.worker.js'', interval = 60000\<rparr>"

definition boot :: "step list" where
  "boot =
     [Start ''farcaster'' farcaster_config,
      Start ''ethereum'' \<lparr>enabled = True, path = ''../workers/ethereum.worker.js'', interval = 60000\<rparr>,
      Start ''solana'' \<lparr>enabled = True, path = ''../workers/solana.worker.js'', interval = 60000\<rparr>]"

definition started :: sys where
  "started = run default_healdec example_env boot (init_sys example_workers)"

text \<open>A crash followed by the restart it schedules.\<close>

definition crash_and_restart :: "name \<Rightarrow> worker_config \<Rightarrow> step list" where
  "crash_and_restart name config = [Exit name config (Some 1), Fire 0]"

text \<open>The number of times a worker was spawned.\<close>

definition spawns :: "name \<Rightarrow> sys \<Rightarrow> nat" where
  "spawns name s = length (filter (\<lambda>ev. case ev of Spawn n p \<Rightarrow> n = name | _ \<Rightarrow> False) (events s))"

text \<open>One crash and restart of the first worker; three of them.\<close>

definition restarted_once :: sys where
  "restarted_once =
     run default_healdec example_env (crash_and_restart ''farcaster'' farcaster_config) started"

definition exhausted :: sys where
  "exhausted =
     run default_healdec example_env
       (crash_and_restart ''farcaster'' farcaster_config
        @ crash_and_restart ''farcaster'' farcaster_config
        @ crash_and_restart ''farcaster'' farcaster_config) started"

section \<open>Properties of the health registry\<close>

lemma healthChecks_record_all:
  "n \<notin> fst ` set calls \<Longrightarrow> healthChecks (record_all calls s) n = healthChecks s n"
  by (induction calls s rule: record_all.induct) (auto simp: setWorkerHealth_def)

text \<open>
  Claim C10. A component name that no \<open>setWorkerHealth\<close> call has recorded since the
  engine was constructed is reported as not healthy by \<open>checkWorkerHealth\<close>, which returns
  the value \<open>false\<close> and raises nothing; recording \<open>false\<close> for that name afterwards gives
  the same answer as leaving it absent.
\<close>

theorem checkWorkerHealth_unknown:
  assumes "n \<notin> fst ` set calls"
  shows "checkWorkerHealth n (record_all calls (init_sys cfg)) = False
       \<and> checkWorkerHealth n (setWorkerHealth n False (record_all calls (init_sys cfg)))
           = checkWorkerHealth n (record_all calls (init_sys cfg))"
proof -
  have "healthChecks (record_all calls (init_sys cfg)) n = None"
    using assms by (simp add: healthChecks_record_all init_sys_def)
  then show ?thesis
    by (simp add: checkWorkerHealth_def setWorkerHealth_def)
qed

theorem checkWorkerHealth_unknown_witness:
  "''solana'' \<notin> fst ` set [(''farcaster'', True), (''ethereum'', False)]
   \<and> checkWorkerHealth ''solana''
       (record_all [(''farcaster'', True), (''ethereum'', False)] (init_sys Map.empty)) = False
   \<and> checkWorkerHealth ''solana'' (setWorkerHealth ''solana'' False
       (record_all [(''farcaster'', True), (''ethereum'', False)] (init_sys Map.empty)))
     = checkWorkerHealth ''solana''
       (record_all [(''farcaster'', True), (''ethereum'', False)] (init_sys Map.empty))"
proof -
  have h: "''solana'' \<notin> fst ` set [(''farcaster'', True), (''ethereum'', False)]"
    by simp
  show ?thesis
    using h checkWorkerHealth_unknown [OF h, of Map.empty] by simp
qed

section \<open>Properties of safeUpdate and rollback\<close>

text \<open>\<open>rollback\<close> catches whatever its helpers throw.\<close>

lemma rollback_returns: "\<exists>b. fst (rollback e target backup s) = Returned b"
  by (auto simp: rollback_def stopComponent_def startComponent_def alertAdmin_def Let_def
      split: outcome.splits prod.splits if_splits)

lemma safeUpdate_catch_eq:
  "safeUpdate_catch e target backup s = (Returned False, snd (rollback e target backup s))"
  using rollback_returns [of e target backup s]
  by (auto simp: safeUpdate_catch_def split: prod.splits outcome.splits)

text \<open>The paths of \<open>safeUpdate\<close>.\<close>

lemma safeUpdate_cases:
  "safeUpdate e target updateFn s =
     (case validate e target s of
        Threw \<Rightarrow> (Threw, s)
      | Returned validated \<Rightarrow>
          if \<not> validated then (Returned False, s)
          else if fst (updateFn s) \<noteq> Threw
                  \<and> healthCheck e target (snd (updateFn s)) = Returned True
               then (Returned True, snd (updateFn s))
               else (Returned False,
                     snd (rollback e target (CONFIG_workers s target) (snd (updateFn s)))))"
  by (auto simp: safeUpdate_def safeUpdate_catch_eq backupConfig_def Let_def
      split: prod.splits outcome.splits)

text \<open>
  What \<open>rollback\<close> leaves behind: the configuration is assigned and the component
  started only when the stop has completed, and the alert \<open>Rollback failed\<close> is raised
  exactly when stop and start have completed and the health check returns \<open>false\<close>.
\<close>

lemma rollback_CONFIG:
  "CONFIG_workers (snd (rollback e target backup s)) =
     (if stopComponent_ok e target s then (CONFIG_workers s)(target := backup) else CONFIG_workers s)"
  by (auto simp: rollback_def stopComponent_def startComponent_def alertAdmin_def Let_def
      split: outcome.splits prod.splits if_splits)

lemma rollback_events:
  "events (snd (rollback e target backup s)) =
     events s @ [StopComponent target] @
       (if stopComponent_ok e target s then [StartComponent target] else [])"
  by (auto simp: rollback_def stopComponent_def startComponent_def alertAdmin_def Let_def
      split: outcome.splits prod.splits if_splits)

lemma rollback_alerts:
  "alerts (snd (rollback e target backup s)) =
     (let s1 = s\<lparr>events := events s @ [StopComponent target]\<rparr>;
          s2 = s1\<lparr>CONFIG_workers := (CONFIG_workers s1)(target := backup)\<rparr>;
          s3 = s2\<lparr>events := events s2 @ [StartComponent target]\<rparr>
      in if stopComponent_ok e target s \<and> startComponent_ok e target s2
            \<and> healthCheck e target s3 = Returned False
         then alerts s @ [\<lparr>level = ''critical'', component = target,
                            message = ''Rollback failed'', timestamp = now s,
                            actions = [''manual_intervention_required'']\<rparr>]
         else alerts s)"
  by (auto simp: rollback_def stopComponent_def startComponent_def alertAdmin_def Let_def
      split: outcome.splits prod.splits if_splits)

text \<open>Validation returns \<open>true\<close> only for a target with an entry of its own.\<close>

lemma validate_True_own:
  "validate e target s = Returned True \<Longrightarrow> \<exists>c. backupConfig target s = Some c"
  by (auto simp: validate_def get_prop_def backupConfig_def split: option.splits if_splits)

text \<open>Unfolding the example inputs.\<close>

lemmas example_defs =
  started_def boot_def init_sys_def example_workers_def example_env_def startWorker_def
  setWorkerHealth_def validate_def get_prop_def prototype_keys_def change_interval_def
  failing_update_def default_healdec_def restartWorker_def restartCount_of_def
  database_down_env_def stop_fails_env_def

lemmas manager_defs =
  restarted_once_def exhausted_def crash_and_restart_def farcaster_config_def
  on_exit_def handleWorkerFailure_def fire_def timer_body_def alertAdmin_def pending_def
  Let_def

text \<open>
  Inherited members: the test engine validates \<open>constructor\<close> and \<open>toString\<close> and
  runs the update, the documented \<open>validate\<close> throws for them.
\<close>

lemma inherited_keys:
  "validate_test ''constructor'' \<and> validate_test ''toString''
 \<and> \<not> validate_test ''nonexistent''
 \<and> safeUpdate_test ''constructor'' (remove_entry ''farcaster'') started
     = (Returned True, snd (remove_entry ''farcaster'' started))
 \<and> validate example_env ''constructor'' started = Threw
 \<and> validate example_env ''toString'' started = Threw"
  by (simp add: validate_test_def mockWorkers_def safeUpdate_test_def remove_entry_def
      example_defs)

text \<open>
  Claim C2. When validation returns \<open>false\<close>, \<open>safeUpdate\<close> returns \<open>false\<close>; and whenever
  validation does not return \<open>true\<close>, the state after the call is the state before it:
  \<open>CONFIG.workers\<close> is unchanged, the update function has not run, no component was
  stopped or started and no restart timer was created. The same holds for the engine of
  the orchestrator test file.
\<close>

theorem safeUpdate_rejected_untouched:
  "(validate e target s = Returned False \<longrightarrow>
      fst (safeUpdate e target updateFn s) = Returned False)
 \<and> (validate e target s \<noteq> Returned True \<longrightarrow>
      snd (safeUpdate e target updateFn s) = s
    \<and> CONFIG_workers (snd (safeUpdate e target updateFn s)) = CONFIG_workers s
    \<and> events (snd (safeUpdate e target updateFn s)) = events s
    \<and> timers (snd (safeUpdate e target updateFn s)) = timers s)
 \<and> (\<not> validate_test target \<longrightarrow> safeUpdate_test target updateFn s = (Returned False, s))"
  by (auto simp: safeUpdate_cases safeUpdate_test_def split: outcome.splits)

theorem safeUpdate_rejected_untouched_witness:
  "validate example_env ''nonexistent'' started = Returned False
 \<and> \<not> validate_test ''nonexistent''
 \<and> fst (safeUpdate example_env ''nonexistent'' (change_interval default_healdec 30000) started)
     = Returned False
 \<and> snd (safeUpdate example_env ''nonexistent'' (change_interval default_healdec 30000) started)
     = started
 \<and> safeUpdate_test ''nonexistent'' (change_interval default_healdec 30000) started
     = (Returned False, started)"
proof -
  have v: "validate example_env ''nonexistent'' started = Returned False"
    by (simp add: example_defs)
  have vt: "\<not> validate_test ''nonexistent''"
    by (simp add: validate_test_def mockWorkers_def get_prop_def prototype_keys_def)
  show ?thesis
    using v vt
      safeUpdate_rejected_untouched
        [of example_env "''nonexistent''" started "change_interval default_healdec 30000"]
    by simp
qed

text \<open>
  Claim C8, as stated, fails: \<open>safeUpdate\<close> returns the same value \<open>false\<close> for an unknown
  target, which validation rejects, and for a valid target whose update throws and is
  rolled back (only the trace tells the two calls apart).
\<close>

theorem safeUpdate_same_value_counterexample:
  "validate example_env ''nonexistent'' started = Returned False
 \<and> validate example_env ''farcaster'' started = Returned True
 \<and> fst (safeUpdate example_env ''nonexistent'' failing_update started) = Returned False
 \<and> fst (safeUpdate example_env ''farcaster'' failing_update started) = Returned False
 \<and> events (snd (safeUpdate example_env ''farcaster'' failing_update started))
     \<noteq> events (snd (safeUpdate example_env ''nonexistent'' failing_update started))"
  by (simp add: safeUpdate_cases rollback_events example_defs)

text \<open>
  Claim C8, amended. \<open>safeUpdate\<close> returns a boolean: \<open>true\<close> exactly when validation
  returns \<open>true\<close>, the update function completes and the health check after it returns
  \<open>true\<close>, and \<open>false\<close> otherwise, with no reason attached (there is no value when
  validation throws). The engine of the orchestrator test file returns \<open>true\<close> exactly
  when validation passes and the update function completes.
\<close>

theorem safeUpdate_boolean:
  "fst (safeUpdate e target updateFn s) =
     (case validate e target s of
        Threw \<Rightarrow> Threw
      | Returned validated \<Rightarrow>
          Returned (validated \<and> fst (updateFn s) \<noteq> Threw
                    \<and> healthCheck e target (snd (updateFn s)) = Returned True))
 \<and> fst (safeUpdate_test target updateFn s) =
     Returned (validate_test target \<and> fst (updateFn s) \<noteq> Threw)"
  by (auto simp: safeUpdate_cases safeUpdate_test_def rollback_test_def
      split: prod.splits outcome.splits)

theorem safeUpdate_boolean_witness:
  "fst (safeUpdate example_env ''farcaster'' (change_interval default_healdec 30000) started)
     = Returned True
 \<and> fst (safeUpdate example_env ''farcaster'' (change_interval default_healdec 0) started)
     = Returned False
 \<and> fst (safeUpdate example_env ''nonexistent'' (change_interval default_healdec 30000) started)
     = Returned False
 \<and> fst (safeUpdate_test ''farcaster'' failing_update started) = Returned False"
  using safeUpdate_boolean [of example_env "''farcaster''" "change_interval default_healdec 30000" started]
    safeUpdate_boolean [of example_env "''farcaster''" "change_interval default_healdec 0" started]
    safeUpdate_boolean [of example_env "''nonexistent''" "change_interval default_healdec 30000" started]
    safeUpdate_boolean [of example_env "''farcaster''" failing_update started]
  by (simp add: example_defs validate_test_def mockWorkers_def)




text \<open>
  Claim C1 at a failing input: validation passes, the update of the usage example sets
  the interval to 0 and completes, the health check after it reports the target not
  healthy. \<open>safeUpdate\<close> returns \<open>false\<close>, the configuration read before the change is
  back in place and the target was stopped and started; the health check of \<open>rollback\<close>
  passes, and no alert has been raised.
\<close>

theorem safeUpdate_rollback_without_alert:
  "validate example_env ''farcaster'' started = Returned True
 \<and> fst (change_interval default_healdec 0 started) = Returned ()
 \<and> healthCheck example_env ''farcaster'' (snd (change_interval default_healdec 0 started))
     = Returned False
 \<and> fst (safeUpdate example_env ''farcaster'' (change_interval default_healdec 0) started)
     = Returned False
 \<and> CONFIG_workers
      (snd (safeUpdate example_env ''farcaster'' (change_interval default_healdec 0) started))
      ''farcaster'' = CONFIG_workers started ''farcaster''
 \<and> events (snd (safeUpdate example_env ''farcaster'' (change_interval default_healdec 0) started))
     = events (snd (change_interval default_healdec 0 started))
       @ [StopComponent ''farcaster'', StartComponent ''farcaster'']
 \<and> alerts (snd (safeUpdate example_env ''farcaster'' (change_interval default_healdec 0) started))
     = []"
  by (simp add: safeUpdate_cases rollback_CONFIG rollback_events rollback_alerts example_defs
      Let_def)

text \<open>
  The same call when stopping the target fails: the \<open>catch\<close> of \<open>rollback\<close> returns
  before the assignment, so \<open>safeUpdate\<close> returns \<open>false\<close> with the new interval 0 still
  in \<open>CONFIG.workers\<close>, the target not started, and no alert.
\<close>

lemma safeUpdate_rollback_stop_fails:
  "fst (safeUpdate stop_fails_env ''farcaster'' (change_interval default_healdec 0) started)
     = Returned False
 \<and> CONFIG_workers
      (snd (safeUpdate stop_fails_env ''farcaster'' (change_interval default_healdec 0) started))
      ''farcaster'' = Some (farcaster_config\<lparr>interval := 0\<rparr>)
 \<and> CONFIG_workers started ''farcaster'' = Some farcaster_config
 \<and> events (snd (safeUpdate stop_fails_env ''farcaster'' (change_interval default_healdec 0) started))
     = events (snd (change_interval default_healdec 0 started)) @ [StopComponent ''farcaster'']
 \<and> alerts (snd (safeUpdate stop_fails_env ''farcaster'' (change_interval default_healdec 0) started))
     = []"
  by (simp add: safeUpdate_cases rollback_CONFIG rollback_events rollback_alerts example_defs
      farcaster_config_def Let_def)

section \<open>Properties of the restart policy\<close>

text \<open>The restart budget holds initially and is kept by every step of the manager.\<close>

lemma within_budget_init: "within_budget hc (init_sys cfg)"
  by (simp add: within_budget_def init_sys_def)

lemma within_budget_count:
  "within_budget hc s \<Longrightarrow> restartCount_of name s \<le> maxRestarts hc"
  by (auto simp: within_budget_def restartCount_of_def split: option.splits)

lemma within_budget_handleWorkerFailure:
  "within_budget hc s \<Longrightarrow> within_budget hc (handleWorkerFailure hc e name config s)"
  by (auto simp: within_budget_def handleWorkerFailure_def alertAdmin_def Let_def)

lemma within_budget_restartWorker:
  "within_budget hc s \<Longrightarrow> within_budget hc (restartWorker hc name s)"
  by (auto simp: within_budget_def restartWorker_def Let_def split: option.splits)

lemma within_budget_setWorkerHealth:
  "within_budget hc s \<Longrightarrow> within_budget hc (setWorkerHealth name h s)"
  by (simp add: within_budget_def setWorkerHealth_def)

lemma within_budget_startWorker:
  "within_budget hc s \<Longrightarrow> within_budget hc (snd (startWorker name config s))"
  by (auto simp: within_budget_def startWorker_def setWorkerHealth_def split: option.splits)

lemma within_budget_fire:
  assumes "within_budget hc s"
  shows "within_budget hc (fire i s)"
proof (cases "i < length (timers s)")
  case False
  then show ?thesis using assms by (simp add: fire_def)
next
  case True
  then have mem: "timers s ! i \<in> set (timers s)" by simp
  have sub: "set (take i (timers s) @ drop (Suc i) (timers s)) \<subseteq> set (timers s)"
    using set_take_subset [of i "timers s"] set_drop_subset [of "Suc i" "timers s"] by auto
  have lt: "Suc (t_count (timers s ! i)) \<le> maxRestarts hc"
    using assms mem by (auto simp: within_budget_def Suc_le_eq)
  show ?thesis
    using assms True sub lt
    by (auto simp: within_budget_def fire_def timer_body_def startWorker_def
        setWorkerHealth_def split: option.splits)
qed

lemma within_budget_step:
  "within_budget hc s \<Longrightarrow> within_budget hc (do_step hc e st s)"
  by (cases st)
     (simp_all add: on_exit_def Let_def within_budget_handleWorkerFailure
        within_budget_restartWorker within_budget_setWorkerHealth within_budget_fire
        within_budget_startWorker,
      simp add: within_budget_def)

lemma within_budget_run:
  "within_budget hc s \<Longrightarrow> within_budget hc (run hc e sts s)"
  by (induction sts arbitrary: s) (simp_all add: within_budget_step)

text \<open>
  The counter stored for a worker stays within the maximum in every state the manager
  reaches from its constructor, and at the maximum neither function creates a timer.
\<close>

lemma restartCount_bounded:
  "restartCount_of name (run hc e sts (init_sys cfg)) \<le> maxRestarts hc"
proof -
  have "within_budget hc (run hc e sts (init_sys cfg))"
    by (rule within_budget_run) (rule within_budget_init)
  then show ?thesis
    by (rule within_budget_count)
qed

lemma no_timer_at_maximum:
  "maxRestarts hc \<le> restartCount_of name s \<Longrightarrow>
     timers (handleWorkerFailure hc e name config s) = timers s
   \<and> timers (restartWorker hc name s) = timers s"
  by (simp add: handleWorkerFailure_def restartWorker_def alertAdmin_def Let_def)

text \<open>
  The counter is written when a timer fires, with the count read when the timer was
  created: five failure signals before the first timer fires give five restarts of the
  worker (six spawns with the one at boot) and a counter of 1.
\<close>

lemma restarts_outrun_counter:
  "spawns ''farcaster'' started = 1
 \<and> spawns ''farcaster''
      (run default_healdec example_env
         [Failure ''farcaster'' farcaster_config, Failure ''farcaster'' farcaster_config,
          Failure ''farcaster'' farcaster_config, Failure ''farcaster'' farcaster_config,
          Failure ''farcaster'' farcaster_config,
          Fire 0, Fire 0, Fire 0, Fire 0, Fire 0] started) = 6
 \<and> restartCount_of ''farcaster''
      (run default_healdec example_env
         [Failure ''farcaster'' farcaster_config, Failure ''farcaster'' farcaster_config,
          Failure ''farcaster'' farcaster_config, Failure ''farcaster'' farcaster_config,
          Failure ''farcaster'' farcaster_config,
          Fire 0, Fire 0, Fire 0, Fire 0, Fire 0] started) = 1"
  by (simp add: manager_defs example_defs spawns_def)

text \<open>
  Claim C3 at a failing input: the worker has used its three restarts and no alert is
  on record. \<open>restartWorker\<close> then returns without creating a timer and without raising
  an alert, where \<open>handleWorkerFailure\<close> in the same state raises the critical alert
  \<open>Max restart limit reached\<close>.
\<close>

theorem restartWorker_no_alert_at_maximum:
  "restartCount_of ''farcaster'' exhausted = maxRestarts default_healdec
 \<and> alerts exhausted = []
 \<and> timers (restartWorker default_healdec ''farcaster'' exhausted) = timers exhausted
 \<and> alerts (restartWorker default_healdec ''farcaster'' exhausted) = []
 \<and> alerts (handleWorkerFailure default_healdec example_env ''farcaster'' farcaster_config
             exhausted)
     = [\<lparr>level = ''critical'', component = ''farcaster'',
         message = ''Max restart limit reached'', timestamp = now exhausted,
         actions = [''manual_intervention_required'']\<rparr>]"
  by (simp add: manager_defs example_defs)

text \<open>
  Below the maximum, \<open>handleWorkerFailure\<close> creates a timer whose delay doubles with
  every restart counted, \<open>restartWorker\<close> one whose delay is \<open>restartDelay\<close>; when either
  timer fires and the worker starts, the count becomes the count read at creation plus
  one.
\<close>

lemma handleWorkerFailure_timer:
  "restartCount_of name s < maxRestarts hc \<Longrightarrow>
     timers (handleWorkerFailure hc e name config s) =
       timers s @ [\<lparr>t_name = name, t_config = Some config, t_count = restartCount_of name s,
                    t_delay = restartDelay hc * 2 ^ restartCount_of name s\<rparr>]"
  by (simp add: handleWorkerFailure_def Let_def)

lemma restartWorker_timer:
  "restartCount_of name s < maxRestarts hc \<Longrightarrow>
     timers (restartWorker hc name s) =
       timers s @ [\<lparr>t_name = name, t_config = CONFIG_workers s name,
                    t_count = restartCount_of name s, t_delay = restartDelay hc\<rparr>]"
  by (simp add: restartWorker_def Let_def split: option.splits)

lemma timer_body_count:
  "t_config t \<noteq> None \<Longrightarrow>
     restartCount_of (t_name t) (snd (timer_body t s)) = Suc (t_count t)"
  by (auto simp: timer_body_def startWorker_def setWorkerHealth_def restartCount_of_def)

text \<open>
  Claim C4 at a failing input: a worker restarted once (count 1, below the maximum 3)
  should wait 5000 * 2 = 10000 ms; the timer of \<open>handleWorkerFailure\<close> does, the timer of
  \<open>restartWorker\<close> waits \<open>restartDelay\<close> = 5000 ms whatever the count.
\<close>

theorem restartWorker_fixed_delay:
  "restartCount_of ''farcaster'' restarted_once = 1
 \<and> restartCount_of ''farcaster'' restarted_once < maxRestarts default_healdec
 \<and> map t_delay (timers (restartWorker default_healdec ''farcaster'' restarted_once)) = [5000]
 \<and> restartDelay default_healdec * 2 ^ restartCount_of ''farcaster'' restarted_once = 10000
 \<and> map t_delay (timers (handleWorkerFailure default_healdec example_env ''farcaster''
        farcaster_config restarted_once)) = [10000]"
  by (simp add: manager_defs example_defs)

text \<open>
  Claim C6, as stated, fails: a worker exits with code 1, which creates a restart timer,
  and while that timer is pending a restart request for the same worker creates a second
  one.
\<close>

theorem duplicate_timers_counterexample:
  "length (pending ''farcaster''
     (run default_healdec example_env
        [Exit ''farcaster'' farcaster_config (Some 1), Restart ''farcaster''] started)) = 2"
  by (simp add: manager_defs example_defs)

text \<open>
  Claim C6, amended. For a worker whose restart count is below the maximum, every call
  of \<open>handleWorkerFailure\<close> or \<open>restartWorker\<close> creates one more pending timer for that
  worker, whether or not timers for it are already pending.
\<close>

theorem unhealthy_signal_adds_timer:
  assumes "restartCount_of name s < maxRestarts hc"
  shows "length (pending name (handleWorkerFailure hc e name config s))
           = Suc (length (pending name s))
       \<and> length (pending name (restartWorker hc name s)) = Suc (length (pending name s))"
  using assms
  by (auto simp: pending_def handleWorkerFailure_def restartWorker_def Let_def
      split: option.splits)

theorem unhealthy_signal_adds_timer_witness:
  "restartCount_of ''farcaster'' (on_exit default_healdec example_env ''farcaster''
       farcaster_config (Some 1) started) < maxRestarts default_healdec
 \<and> length (pending ''farcaster'' (on_exit default_healdec example_env ''farcaster''
       farcaster_config (Some 1) started)) = 1
 \<and> length (pending ''farcaster'' (restartWorker default_healdec ''farcaster''
       (on_exit default_healdec example_env ''farcaster'' farcaster_config (Some 1) started))) = 2
 \<and> length (pending ''farcaster'' (handleWorkerFailure default_healdec example_env ''farcaster''
       farcaster_config
       (on_exit default_healdec example_env ''farcaster'' farcaster_config (Some 1) started))) = 2"
proof -
  have c: "restartCount_of ''farcaster'' (on_exit default_healdec example_env ''farcaster''
       farcaster_config (Some 1) started) < maxRestarts default_healdec"
    by (simp add: manager_defs example_defs)
  have p: "length (pending ''farcaster'' (on_exit default_healdec example_env ''farcaster''
       farcaster_config (Some 1) started)) = 1"
    by (simp add: manager_defs example_defs)
  show ?thesis
    using c p
      unhealthy_signal_adds_timer [OF c, of example_env farcaster_config]
    by simp
qed

text \<open>
  Neither function looks at the clock: the counts are the same and the timers are the
  same whatever the time, and time passing leaves the counts alone.
\<close>

lemma restart_decision_ignores_clock:
  "timers (handleWorkerFailure hc e name config (s\<lparr>now := t\<rparr>))
     = timers (handleWorkerFailure hc e name config s)
 \<and> restartCounts (handleWorkerFailure hc e name config (s\<lparr>now := t\<rparr>)) = restartCounts s
 \<and> timers (restartWorker hc name (s\<lparr>now := t\<rparr>)) = timers (restartWorker hc name s)
 \<and> restartCounts (restartWorker hc name (s\<lparr>now := t\<rparr>)) = restartCounts s"
  by (simp add: handleWorkerFailure_def restartWorker_def restartCount_of_def alertAdmin_def
      Let_def split: option.splits)

text \<open>
  Claim C7 at a failing input: a worker has used its three restarts, two hours pass
  (the documented \<open>resetInterval\<close> is one hour), and the worker exits again or a restart
  is requested: the count is still 3 and no restart is scheduled.
\<close>

theorem restart_count_not_reset:
  "restartCount_of ''farcaster'' exhausted = 3
 \<and> now (run default_healdec example_env [Elapse 7200000] exhausted) - now exhausted = 7200000
 \<and> restartCount_of ''farcaster''
      (run default_healdec example_env
         [Elapse 7200000, Exit ''farcaster'' farcaster_config (Some 1)] exhausted) = 3
 \<and> timers (run default_healdec example_env
         [Elapse 7200000, Exit ''farcaster'' farcaster_config (Some 1)] exhausted) = []
 \<and> timers (run default_healdec example_env
         [Elapse 7200000, Restart ''farcaster''] exhausted) = []"
  by (simp add: manager_defs example_defs)

section \<open>Properties of the worker probe\<close>




end
